theory Spec2Isabelle
  imports Main
begin

section \<open>Python values used by SplitPDFTool.py\<close>

text \<open>
  The exceptions that the modelled code and the library calls it makes can raise.
  Every function of the program returns a pair: either the exception or the returned
  value, and the file system as the call left it (a raise keeps the files written so far).
\<close>

datatype error =
    ZeroDivisionError
  | ValueError
  | TypeError
  | FileNotFoundError
  | FileExistsError
  | IsADirectoryError
  | UnidentifiedImageError
  | PDFPageCountError
  | OSError
  | RegexError

text \<open>Python's \<open>a // b\<close> on integers: floor division, raising on a zero divisor.\<close>

definition floordiv :: "int \<Rightarrow> int \<Rightarrow> error + int" where
  "floordiv a b = (if b = 0 then Inl ZeroDivisionError else Inr (a div b))"

subsection \<open>Strings\<close>

fun startswith :: "string \<Rightarrow> string \<Rightarrow> bool" where
  "startswith s [] = True"
| "startswith [] (p # ps) = False"
| "startswith (c # cs) (p # ps) = (c = p \<and> startswith cs ps)"

text \<open>\<open>sub in s\<close> for strings.\<close>

fun isin :: "string \<Rightarrow> string \<Rightarrow> bool" where
  "isin sub [] = (sub = [])"
| "isin sub (c # cs) = (startswith (c # cs) sub \<or> isin sub cs)"

text \<open>\<open>s.rfind(c)\<close> for a single character: the last index of \<open>c\<close>, if any.\<close>

fun rfind :: "char \<Rightarrow> string \<Rightarrow> nat option" where
  "rfind c [] = None"
| "rfind c (x # xs) =
     (case rfind c xs of
        Some i \<Rightarrow> Some (Suc i)
      | None \<Rightarrow> if x = c then Some 0 else None)"

text \<open>\<open>s.split(".")[0]\<close>: the text before the first dot (all of \<open>s\<close> without a dot).\<close>

definition split_dot_first :: "string \<Rightarrow> string" where
  "split_dot_first s = takeWhile (\<lambda>c. c \<noteq> CHR ''.'') s"

definition is_digit :: "char \<Rightarrow> bool" where
  "is_digit c = (c \<in> set ''0123456789'')"

fun index_of :: "char \<Rightarrow> string \<Rightarrow> nat" where
  "index_of c [] = 0"
| "index_of c (x # xs) = (if x = c then 0 else Suc (index_of c xs))"

definition digit_val :: "char \<Rightarrow> nat" where
  "digit_val c = index_of c ''0123456789''"

definition is_space :: "char \<Rightarrow> bool" where
  "is_space c = (c \<in> set [CHR '' '', CHR 0x09, CHR 0x0A, CHR 0x0B, CHR 0x0C, CHR 0x0D])"

definition strip :: "string \<Rightarrow> string" where
  "strip s = rev (dropWhile is_space (rev (dropWhile is_space s)))"

text \<open>
  The digits of an integer literal as \<open>int()\<close> reads them: decimal digits, where a single
  underscore may stand between two digits.
\<close>

fun parse_digits :: "nat \<Rightarrow> string \<Rightarrow> nat option" where
  "parse_digits acc [] = Some acc"
| "parse_digits acc (c # cs) =
     (if is_digit c then parse_digits (10 * acc + digit_val c) cs
      else if c = CHR ''_'' then
        (case cs of
           [] \<Rightarrow> None
         | d # ds \<Rightarrow> if is_digit d then parse_digits acc cs else None)
      else None)"

text \<open>
  \<open>int(s)\<close> on a string of ASCII characters: surrounding white space is dropped, one sign
  is allowed, and the rest must be digits starting with a digit; anything else raises
  ValueError.
\<close>

definition py_int :: "string \<Rightarrow> error + int" where
  "py_int s =
     (case strip s of
        [] \<Rightarrow> Inl ValueError
      | c # cs \<Rightarrow>
          (let neg = (c = CHR ''-'');
               body = (if c = CHR ''-'' \<or> c = CHR ''+'' then cs else c # cs)
           in case body of
                [] \<Rightarrow> Inl ValueError
              | d # ds \<Rightarrow>
                  if is_digit d then
                    (case parse_digits 0 body of
                       None \<Rightarrow> Inl ValueError
                     | Some n \<Rightarrow> Inr (if neg then - int n else int n))
                  else Inl ValueError))"

text \<open>The decimal digits of a natural number, and the format \<open>{n:02d}\<close>.\<close>

function dec :: "nat \<Rightarrow> string" where
  "dec n = (if n < 10 then [''0123456789'' ! n] else dec (n div 10) @ [''0123456789'' ! (n mod 10)])"
  by pat_completeness auto
termination
  by (relation "measure id") auto

definition fmt_02d :: "nat \<Rightarrow> string" where
  "fmt_02d n = (let s = dec n in if length s < 2 then CHR ''0'' # s else s)"

text \<open>
  Matching a file name against a glob pattern in which \<open>*\<close> stands for any run of
  characters and \<open>?\<close> for one character; the patterns of the program
  (\<open>*.pdf\<close>, \<open>*.png\<close>, \<open>*_cropped_A4_*.png\<close>) use nothing else. Letters match
  by case, as on a case-sensitive file system.
\<close>

fun fnmatch :: "string \<Rightarrow> string \<Rightarrow> bool" where
  "fnmatch [] [] = True"
| "fnmatch [] (p # ps) = (p = CHR ''*'' \<and> fnmatch [] ps)"
| "fnmatch (c # cs) [] = False"
| "fnmatch (c # cs) (p # ps) =
     (if p = CHR ''*'' then fnmatch (c # cs) ps \<or> fnmatch cs (p # ps)
      else (p = CHR ''?'' \<or> p = c) \<and> fnmatch cs ps)"

subsection \<open>Paths\<close>

text \<open>A path is the list of its components; \<open>name\<close>, \<open>stem\<close> and \<open>parent\<close> are pathlib's.\<close>

type_synonym path = "string list"

definition parent :: "path \<Rightarrow> path" where
  "parent p = butlast p"

definition name :: "path \<Rightarrow> string" where
  "name p = (if p = [] then [] else last p)"

definition child :: "path \<Rightarrow> string \<Rightarrow> path" where
  "child p n = p @ [n]"

text \<open>
  pathlib: the stem is the name up to its last dot, unless that dot is the first or the last
  character of the name (then the name has no suffix and the stem is the whole name).
\<close>

definition stem_of :: "string \<Rightarrow> string" where
  "stem_of n =
     (case rfind CHR ''.'' n of
        None \<Rightarrow> n
      | Some i \<Rightarrow> if 0 < i \<and> Suc i < length n then take i n else n)"

definition stem :: "path \<Rightarrow> string" where
  "stem p = stem_of (name p)"

section \<open>Images, files and the console\<close>

text \<open>
  An image is its size and a symbolic account of its pixels: where they came from
  (\<open>Raster\<close>, pixel data given from outside), which box was cut out of them by
  \<open>Image.crop\<close>, and which caption was drawn over them.
\<close>

datatype caption =
    Localized nat nat string  \<comment> \<open>page number, total, memo: the msyh.ttc text\<close>
  | Plain nat nat  \<comment> \<open>page number, total: the arial.ttf text\<close>

datatype picture =
    Raster nat
  | Region "int \<times> int \<times> int \<times> int" picture
  | Captioned caption picture

record image =
  width :: nat
  height :: nat
  pixels :: picture

text \<open>
  A file system entry. A readable PDF is given by the pictures of its pages: for a source
  document these are what \<open>convert_from_path\<close> returns at the configured resolution, for a
  document written by FPDF the pictures placed on its sheets. \<open>Blob\<close> is any other file,
  a damaged PDF or image among them.
\<close>

datatype node = Dir | Png image | Pdf "image list" | Blob

text \<open>The lines that \<open>WriteText\<close> prints, by the place that prints them.\<close>

datatype msg =
    DirMissing path
  | Started path
  | Including string
  | Excluding string
  | Ignored string nat
  | Extracted nat string
  | CroppedTo string string
  | PageLine nat nat string nat nat
  | SavedAs string
  | Finished nat nat

text \<open>
  The entries of the file system, in the order in which a directory listing returns them
  (any order: the theorems hold for every list), and the console output so far.
\<close>

record world =
  nodes :: "(path \<times> node) list"
  stdout :: "msg list"

text \<open>
  What the program reads from its module globals and from the machine it runs on:
  the two module constants, the \<open>windir\<close> environment variable, whether
  \<open>windir\fonts\msyh.ttc\<close> exists, whether \<open>ImageFont.truetype\<close> can load a font at
  the size computed for an image of a given height, and
  \<open>re.compile\<close> (\<open>None\<close> for a pattern it rejects, else the compiled pattern's
  \<open>search\<close> as a test on strings).
\<close>

record env =
  Debug_Mode :: bool
  Pdf2Image_Default_Dpi :: int
  windir :: "string option"
  msyh_exists :: bool
  truetype :: "string \<Rightarrow> nat \<Rightarrow> bool"
  re_compile :: "string \<Rightarrow> (string \<Rightarrow> bool) option"

type_synonym 'a outcome = "(error + 'a) \<times> world"

definition and_then :: "'a outcome \<Rightarrow> ('a \<Rightarrow> world \<Rightarrow> 'b outcome) \<Rightarrow> 'b outcome" where
  "and_then m f = (case m of (Inl e, w) \<Rightarrow> (Inl e, w) | (Inr x, w) \<Rightarrow> f x w)"

definition then_do :: "error + 'a \<Rightarrow> ('a \<Rightarrow> error + 'b) \<Rightarrow> error + 'b" where
  "then_do r f = (case r of Inl e \<Rightarrow> Inl e | Inr x \<Rightarrow> f x)"

definition lift :: "error + 'a \<Rightarrow> world \<Rightarrow> 'a outcome" where
  "lift r w = (r, w)"

definition lookup :: "world \<Rightarrow> path \<Rightarrow> node option" where
  "lookup w p = map_of (nodes w) p"

definition exists :: "world \<Rightarrow> path \<Rightarrow> bool" where
  "exists w p = (lookup w p \<noteq> None)"

text \<open>
  Writing a file: an existing entry keeps its place in the listing, a new one is added at
  the end. Where a real directory lists a new file is not fixed; no theorem below rests on
  it, since each is stated for an arbitrary list of entries.
\<close>

fun update_entry :: "path \<Rightarrow> node \<Rightarrow> (path \<times> node) list \<Rightarrow> (path \<times> node) list" where
  "update_entry p n [] = [(p, n)]"
| "update_entry p n (e # es) = (if fst e = p then (p, n) # es else e # update_entry p n es)"

definition write_node :: "path \<Rightarrow> node \<Rightarrow> world \<Rightarrow> unit outcome" where
  "write_node p n w =
     (case lookup w p of
        Some Dir \<Rightarrow> (Inl IsADirectoryError, w)
      | _ \<Rightarrow> (Inr (), w\<lparr>nodes := update_entry p n (nodes w)\<rparr>))"

text \<open>\<open>Path.mkdir(exist_ok=True)\<close>.\<close>

definition mkdir_exist_ok :: "path \<Rightarrow> world \<Rightarrow> unit outcome" where
  "mkdir_exist_ok p w =
     (case lookup w p of
        Some Dir \<Rightarrow> (Inr (), w)
      | Some _ \<Rightarrow> (Inl FileExistsError, w)
      | None \<Rightarrow>
          if parent p = [] \<or> lookup w (parent p) = Some Dir
          then (Inr (), w\<lparr>nodes := nodes w @ [(p, Dir)]\<rparr>)
          else (Inl FileNotFoundError, w))"

text \<open>\<open>Path.glob(pattern)\<close> with a pattern for one component: the matching children, in listing order.\<close>

definition glob :: "world \<Rightarrow> path \<Rightarrow> string \<Rightarrow> path list" where
  "glob w d pat = filter (\<lambda>p. p \<noteq> [] \<and> parent p = d \<and> fnmatch (name p) pat) (map fst (nodes w))"

text \<open>\<open>shutil.rmtree(d)\<close>: the directory and everything below it goes.\<close>

definition rmtree :: "path \<Rightarrow> world \<Rightarrow> unit outcome" where
  "rmtree d w =
     (case lookup w d of
        Some Dir \<Rightarrow> (Inr (), w\<lparr>nodes := filter (\<lambda>e. take (length d) (fst e) \<noteq> d) (nodes w)\<rparr>)
      | Some _ \<Rightarrow> (Inl OSError, w)
      | None \<Rightarrow> (Inl FileNotFoundError, w))"

text \<open>\<open>Image.open\<close> followed by reading the image.\<close>

definition open_image :: "path \<Rightarrow> world \<Rightarrow> image outcome" where
  "open_image p w =
     (case lookup w p of
        None \<Rightarrow> (Inl FileNotFoundError, w)
      | Some Dir \<Rightarrow> (Inl IsADirectoryError, w)
      | Some (Png img) \<Rightarrow> (Inr img, w)
      | Some _ \<Rightarrow> (Inl UnidentifiedImageError, w))"

definition save_png :: "path \<Rightarrow> image \<Rightarrow> world \<Rightarrow> unit outcome" where
  "save_png p img w = write_node p (Png img) w"

text \<open>
  \<open>Image.crop((left, upper, right, lower))\<close>: the result has size
  \<open>(right - left, lower - upper)\<close>; a box whose right edge is left of its left edge, or
  whose lower edge is above its upper edge, is refused with ValueError.
\<close>

definition crop :: "image \<Rightarrow> int \<times> int \<times> int \<times> int \<Rightarrow> error + image" where
  "crop img box =
     (case box of (l, u, r, lo) \<Rightarrow>
        if r < l \<or> lo < u then Inl ValueError
        else Inr \<lparr>width = nat (r - l), height = nat (lo - u), pixels = Region box (pixels img)\<rparr>)"

text \<open>\<open>convert_from_path(str(pdfFilename), dpi=...)\<close>.\<close>

definition convert_from_path :: "path \<Rightarrow> world \<Rightarrow> image list outcome" where
  "convert_from_path p w =
     (case lookup w p of
        Some (Pdf pages) \<Rightarrow> (Inr pages, w)
      | _ \<Rightarrow> (Inl PDFPageCountError, w))"

definition WriteText :: "env \<Rightarrow> msg \<Rightarrow> bool \<Rightarrow> world \<Rightarrow> world" where
  "WriteText E text verbose w =
     (if Debug_Mode E \<or> verbose then w\<lparr>stdout := stdout w @ [text]\<rparr> else w)"

section \<open>The program\<close>

type_synonym Margins = "int \<times> int \<times> int \<times> int"

subsection \<open>ExtractImagesFromPdfFile\<close>

fun save_pages :: "path \<Rightarrow> nat \<Rightarrow> image list \<Rightarrow> world \<Rightarrow> unit outcome" where
  "save_pages outputDir i [] w = (Inr (), w)"
| "save_pages outputDir i (img # imgs) w =
     and_then (save_png (child outputDir (fmt_02d (i + 1) @ ''.png'')) img w)
       (\<lambda>_. save_pages outputDir (i + 1) imgs)"

definition ExtractImagesFromPdfFile :: "env \<Rightarrow> path \<Rightarrow> world \<Rightarrow> path outcome" where
  "ExtractImagesFromPdfFile E pdfFilename w =
     (let outputDir = child (parent pdfFilename) (stem pdfFilename) in
      and_then (mkdir_exist_ok outputDir w) (\<lambda>_ w1.
      and_then (convert_from_path pdfFilename w1) (\<lambda>images w2.
      and_then (save_pages outputDir 0 images w2) (\<lambda>_ w3.
      (Inr outputDir, w3)))))"

subsection \<open>SplitCroppedIntoA4Files\<close>

definition SplitCroppedIntoA4Files :: "path \<Rightarrow> world \<Rightarrow> (path \<times> path) outcome" where
  "SplitCroppedIntoA4Files croppedImageFilename w =
     and_then (open_image croppedImageFilename w) (\<lambda>img w1.
       let half_width = width img div 2 in
       and_then (lift (crop img (0, 0, int half_width, int (height img))) w1) (\<lambda>leftImage w2.
       and_then (lift (crop img (int half_width, 0, int (width img), int (height img))) w2) (\<lambda>rightImage w3.
         let leftImageFilename =
               child (parent croppedImageFilename) (stem croppedImageFilename @ ''_A4_01.png'');
             rightImageFilename =
               child (parent croppedImageFilename) (stem croppedImageFilename @ ''_A4_02.png'')
         in
         and_then (save_png leftImageFilename leftImage w3) (\<lambda>_ w4.
         and_then (save_png rightImageFilename rightImage w4) (\<lambda>_ w5.
         (Inr (leftImageFilename, rightImageFilename), w5))))))"

subsection \<open>CropImageFile\<close>

definition dpiRatio :: "env \<Rightarrow> error + int" where
  "dpiRatio E = floordiv 300 (Pdf2Image_Default_Dpi E)"

text \<open>The box handed to \<open>img.crop\<close>, each margin floor-divided by the ratio.\<close>

definition crop_box :: "int \<Rightarrow> image \<Rightarrow> Margins \<Rightarrow> error + int \<times> int \<times> int \<times> int" where
  "crop_box ratio img m =
     (case m of (leftMargin, topMargin, rightMargin, bottomMargin) \<Rightarrow>
        then_do (floordiv leftMargin ratio) (\<lambda>l.
        then_do (floordiv topMargin ratio) (\<lambda>t.
        then_do (floordiv rightMargin ratio) (\<lambda>r.
        then_do (floordiv bottomMargin ratio) (\<lambda>b.
          Inr (l, t, int (width img) - r, int (height img) - b))))))"

definition CropImageFile :: "env \<Rightarrow> path \<Rightarrow> Margins \<Rightarrow> world \<Rightarrow> path outcome" where
  "CropImageFile E imageFilename m w =
     (let outputDir = parent imageFilename in
      and_then (open_image imageFilename w) (\<lambda>img w1.
      and_then (lift (dpiRatio E) w1) (\<lambda>ratio w2.
      and_then (lift (crop_box ratio img m) w2) (\<lambda>box w3.
      and_then (lift (crop img box) w3) (\<lambda>croppedImage w4.
        let croppedImageFilename = child outputDir (stem imageFilename @ ''_cropped.png'') in
        and_then (save_png croppedImageFilename croppedImage w4) (\<lambda>_ w5.
        and_then (SplitCroppedIntoA4Files croppedImageFilename w5) (\<lambda>_ w6.
        (Inr croppedImageFilename, w6))))))))"

text \<open>The default arguments of \<open>CropImageFile\<close>.\<close>

definition no_margins :: Margins where
  "no_margins = (0, 0, 0, 0)"

subsection \<open>AddPageNumberIntoImage\<close>

text \<open>
  The font size \<open>int(height / dpi * 3)\<close> is a floating-point computation and is not
  computed here: computing it raises for a dpi of 0, and whether the font loads at that
  size is asked of \<open>truetype\<close> with the height. The font is looked for under
  \<open>os.getenv("windir")\<close>, and \<open>os.path.join\<close> raises TypeError when that variable is
  not set.
\<close>

definition choose_caption :: "env \<Rightarrow> nat \<Rightarrow> nat \<Rightarrow> nat \<Rightarrow> string \<Rightarrow> error + caption" where
  "choose_caption E h totalPages pageNumber pagerMemo =
     (case windir E of
        None \<Rightarrow> Inl TypeError
      | Some _ \<Rightarrow>
          if msyh_exists E then
            (if truetype E ''msyh.ttc'' h then Inr (Localized pageNumber totalPages pagerMemo)
             else Inl OSError)
          else
            (if truetype E ''arial.ttf'' h then Inr (Plain pageNumber totalPages)
             else Inl OSError))"

definition AddPageNumberIntoImage ::
    "env \<Rightarrow> path \<Rightarrow> nat \<Rightarrow> nat \<Rightarrow> string \<Rightarrow> world \<Rightarrow> path outcome" where
  "AddPageNumberIntoImage E imageFilename totalPages pageNumber pagerMemo w =
     and_then (open_image imageFilename w) (\<lambda>img w1.
       if Pdf2Image_Default_Dpi E = 0 then (Inl ZeroDivisionError, w1)
       else
         and_then (lift (choose_caption E (height img) totalPages pageNumber pagerMemo) w1)
           (\<lambda>text w2.
           let newImg = \<lparr>width = width img, height = height img,
                         pixels = Captioned text (pixels img)\<rparr> in
           and_then (save_png imageFilename newImg w2) (\<lambda>_ w3.
           (Inr imageFilename, w3))))"

subsection \<open>MergeImagesAsPDFFile\<close>

text \<open>
  The loop over the listed images; \<open>pdf\<close> holds the pictures placed so far, one per
  sheet, in sheet order.
\<close>

fun merge_loop ::
    "env \<Rightarrow> bool \<Rightarrow> string \<Rightarrow> bool \<Rightarrow> nat \<Rightarrow> nat \<Rightarrow> image list \<Rightarrow> path list \<Rightarrow> world
      \<Rightarrow> image list outcome" where
  "merge_loop E addPager pagerMemo verbose totalPages pageNumber pdf [] w = (Inr pdf, w)"
| "merge_loop E addPager pagerMemo verbose totalPages pageNumber pdf (imageFilename # rest) w =
     (let pageNumber = pageNumber + 1 in
      and_then
        (if addPager
         then AddPageNumberIntoImage E imageFilename totalPages pageNumber pagerMemo w
         else (Inr imageFilename, w)) (\<lambda>_ w1.
      and_then (open_image imageFilename w1) (\<lambda>placed w2.
      and_then (open_image imageFilename w2) (\<lambda>img w3.
        merge_loop E addPager pagerMemo verbose totalPages pageNumber (pdf @ [placed]) rest
          (WriteText E
             (PageLine pageNumber totalPages (name imageFilename) (width img) (height img))
             verbose w3)))))"

definition pdf_output_path :: "path \<Rightarrow> path" where
  "pdf_output_path imageDir =
     child (child (parent imageDir) ''_A4_'') (stem imageDir @ ''_A4.pdf'')"

definition MergeImagesAsPDFFile ::
    "env \<Rightarrow> path \<Rightarrow> bool \<Rightarrow> string \<Rightarrow> bool \<Rightarrow> world \<Rightarrow> path outcome" where
  "MergeImagesAsPDFFile E imageDir addPager pagerMemo verbose w =
     (let A4Folder = child (parent imageDir) ''_A4_'' in
      and_then (mkdir_exist_ok A4Folder w) (\<lambda>_ w1.
        let pdfFilename = pdf_output_path imageDir;
            images = glob w1 imageDir ''*_cropped_A4_*.png'';
            totalPages = length images
        in
        and_then (merge_loop E addPager pagerMemo verbose totalPages 0 [] images w1) (\<lambda>pdf w2.
        and_then (write_node pdfFilename (Pdf pdf) w2) (\<lambda>_ w3.
        (Inr pdfFilename, w3)))))"

subsection \<open>ProcessPDFFiles\<close>

text \<open>The body of the loop over the page images of one document.\<close>

definition crop_page :: "env \<Rightarrow> Margins \<Rightarrow> bool \<Rightarrow> bool \<Rightarrow> path \<Rightarrow> world \<Rightarrow> unit outcome" where
  "crop_page E cropMargins reverseLeftAndRight verbose imageFilename w =
     (case cropMargins of (leftMargin, topMargin, rightMargin, bottomMargin) \<Rightarrow>
        if isin ''_cropped'' (stem imageFilename) then (Inr (), w)
        else
          and_then
            (if reverseLeftAndRight then
               and_then (lift (py_int (split_dot_first (stem imageFilename))) w) (\<lambda>number w1.
                 if number mod 2 = 1
                 then CropImageFile E imageFilename
                        (leftMargin, topMargin, rightMargin, bottomMargin) w1
                 else CropImageFile E imageFilename
                        (rightMargin, topMargin, leftMargin, bottomMargin) w1)
             else CropImageFile E imageFilename no_margins w) (\<lambda>cropedFile w2.
          (Inr (), WriteText E (CroppedTo (name imageFilename) (name cropedFile)) verbose w2)))"

fun crop_pages :: "env \<Rightarrow> Margins \<Rightarrow> bool \<Rightarrow> bool \<Rightarrow> path list \<Rightarrow> world \<Rightarrow> unit outcome" where
  "crop_pages E cropMargins reverseLeftAndRight verbose [] w = (Inr (), w)"
| "crop_pages E cropMargins reverseLeftAndRight verbose (imageFilename # rest) w =
     and_then (crop_page E cropMargins reverseLeftAndRight verbose imageFilename w)
       (\<lambda>_. crop_pages E cropMargins reverseLeftAndRight verbose rest)"

text \<open>The arguments of \<open>ProcessPDFFiles\<close> that stay fixed during a run.\<close>

record job =
  job_margins :: Margins
  job_include :: "(string \<Rightarrow> bool) option"
  job_exclude :: "(string \<Rightarrow> bool) option"
  job_reverse :: bool
  job_pager :: bool
  job_memo :: string
  job_verbose :: bool

text \<open>The work on one document that passed the filters (from \<open>count += 1\<close> on).\<close>

definition process_pdf :: "env \<Rightarrow> job \<Rightarrow> nat \<Rightarrow> path \<Rightarrow> world \<Rightarrow> unit outcome" where
  "process_pdf E J count pdfFilename w =
     and_then (ExtractImagesFromPdfFile E pdfFilename w) (\<lambda>outputDir w1.
       let w2 = WriteText E (Extracted count (name pdfFilename)) (job_verbose J) w1 in
       and_then (crop_pages E (job_margins J) (job_reverse J) (job_verbose J)
                   (glob w2 outputDir ''*.png'') w2) (\<lambda>_ w3.
       and_then (MergeImagesAsPDFFile E outputDir (job_pager J) (job_memo J) False w3)
         (\<lambda>newPdfFilename w4.
       and_then (if \<not> Debug_Mode E then rmtree outputDir w4 else (Inr (), w4)) (\<lambda>_ w5.
       (Inr (), WriteText E (SavedAs (name newPdfFilename)) (job_verbose J) w5)))))"

text \<open>The loop over the listed PDF files; the result is \<open>(count, ignore)\<close>.\<close>

fun process_files :: "env \<Rightarrow> job \<Rightarrow> nat \<Rightarrow> nat \<Rightarrow> path list \<Rightarrow> world \<Rightarrow> (nat \<times> nat) outcome" where
  "process_files E J count ignore [] w = (Inr (count, ignore), w)"
| "process_files E J count ignore (pdfFilename # rest) w =
     (if isin ''_A4'' (stem pdfFilename) then process_files E J count ignore rest w
      else
        let filename = name pdfFilename in
        if (case job_include J of None \<Rightarrow> False | Some search \<Rightarrow> \<not> search filename) then
          process_files E J count (ignore + 1) rest
            (WriteText E (Ignored filename (ignore + 1)) True w)
        else if (case job_exclude J of None \<Rightarrow> False | Some search \<Rightarrow> search filename) then
          process_files E J count (ignore + 1) rest
            (WriteText E (Ignored filename (ignore + 1)) True w)
        else
          and_then (process_pdf E J (count + 1) pdfFilename w)
            (\<lambda>_. process_files E J (count + 1) ignore rest))"

text \<open>\<open>re.compile(regex) if len(regex) > 0 else None\<close>.\<close>

definition compile_pattern :: "env \<Rightarrow> string \<Rightarrow> error + (string \<Rightarrow> bool) option" where
  "compile_pattern E regex =
     (if length regex > 0 then
        (case re_compile E regex of None \<Rightarrow> Inl RegexError | Some search \<Rightarrow> Inr (Some search))
      else Inr None)"

definition ProcessPDFFiles ::
    "env \<Rightarrow> path \<Rightarrow> Margins \<Rightarrow> string \<Rightarrow> string \<Rightarrow> bool \<Rightarrow> bool \<Rightarrow> string \<Rightarrow> bool \<Rightarrow> world
      \<Rightarrow> unit outcome" where
  "ProcessPDFFiles E pdfDir margins regexInFilenameIncluded regexInFilenameExcluded
       reverse pager memo verb w =
     (if \<not> exists w pdfDir then (Inr (), WriteText E (DirMissing pdfDir) True w)
      else
        let w1 = WriteText E (Started pdfDir) True w;
            w2 = (if length regexInFilenameIncluded > 0
                  then WriteText E (Including regexInFilenameIncluded) True w1 else w1);
            w3 = (if length regexInFilenameExcluded > 0
                  then WriteText E (Excluding regexInFilenameExcluded) True w2 else w2);
            pdfFiles = glob w3 pdfDir ''*.pdf''
        in
        and_then (lift (compile_pattern E regexInFilenameIncluded) w3) (\<lambda>inc w4.
        and_then (lift (compile_pattern E regexInFilenameExcluded) w4) (\<lambda>exc w5.
        and_then
          (process_files E
             \<lparr>job_margins = margins, job_include = inc, job_exclude = exc,
              job_reverse = reverse, job_pager = pager, job_memo = memo,
              job_verbose = verb\<rparr>
             0 0 pdfFiles w5) (\<lambda>(count, ignore) w6.
        (Inr (), WriteText E (Finished count ignore) True w6)))))"

section \<open>Example inputs\<close>

text \<open>
  A Windows machine with the Arial font only (loading at the sizes that images of at least
  100 pixels height give at 300 dpi), and the module as shipped.
\<close>

definition example_env :: env where
  "example_env =
     \<lparr>Debug_Mode = False, Pdf2Image_Default_Dpi = 300, windir = Some ''C:/Windows'',
      msyh_exists = False, truetype = (\<lambda>font h. font = ''arial.ttf'' \<and> 100 \<le> h),
      re_compile = (\<lambda>regex. Some (isin regex))\<rparr>"

definition scan :: "nat \<Rightarrow> image" where
  "scan n = \<lparr>width = 3000, height = 4000, pixels = Raster n\<rparr>"

definition page_world :: world where
  "page_world =
     \<lparr>nodes = [([''d''], Dir), ([''d'', ''a''], Dir),
               ([''d'', ''a'', ''01.png''], Png (scan 1)),
               ([''d'', ''a'', ''02.png''], Png (scan 2))],
      stdout = []\<rparr>"


definition bad_world :: world where
  "bad_world =
     \<lparr>nodes = [([''d''], Dir), ([''d'', ''bad.pdf''], Blob), ([''d'', ''good.pdf''], Pdf [scan 7])],
      stdout = []\<rparr>"

text \<open>The four half pages of a two-page document, listed out of page order.\<close>

definition half :: "nat \<Rightarrow> nat \<Rightarrow> image" where
  "half page column = \<lparr>width = 1340, height = 3680, pixels = Raster (10 * page + column)\<rparr>"

definition shuffled_world :: world where
  "shuffled_world =
     \<lparr>nodes = [([''d''], Dir), ([''d'', ''a''], Dir),
               ([''d'', ''a'', ''02_cropped_A4_01.png''], Png (half 2 1)),
               ([''d'', ''a'', ''01_cropped_A4_02.png''], Png (half 1 2)),
               ([''d'', ''a'', ''02_cropped_A4_02.png''], Png (half 2 2)),
               ([''d'', ''a'', ''01_cropped_A4_01.png''], Png (half 1 1))],
      stdout = []\<rparr>"

section \<open>Auxiliary facts\<close>

lemma map_of_update_entry: "map_of (update_entry p n es) = (map_of es)(p \<mapsto> n)"
  by (induction es) (auto simp: fun_eq_iff)

lemma save_png_ok:
  "map_of (nodes w) p \<noteq> Some Dir \<Longrightarrow>
   save_png p img w = (Inr (), w\<lparr>nodes := update_entry p (Png img) (nodes w)\<rparr>)"
  by (auto simp: save_png_def write_node_def lookup_def split: option.splits node.splits)

lemma open_image_ok: "map_of (nodes w) p = Some (Png img) \<Longrightarrow> open_image p w = (Inr img, w)"
  by (simp add: open_image_def lookup_def)

lemma and_then_Inr [simp]: "and_then (Inr x, w) f = f x w"
  by (simp add: and_then_def)

lemma and_then_Inl [simp]: "and_then (Inl e, w) f = (Inl e, w)"
  by (simp add: and_then_def)

lemma lift_simp [simp]: "lift r w = (r, w)"
  by (simp add: lift_def)

lemma child_eq_iff [simp]: "(child d a = child d b) = (a = b)"
  by (simp add: child_def)

lemma rfind_append_last:
  "c \<notin> set t \<Longrightarrow> rfind c (s @ c # t) = Some (length s)"
proof (induction s)
  case Nil
  have "rfind c t = None" using Nil by (induction t) auto
  then show ?case by simp
next
  case (Cons a s)
  then show ?case by simp
qed

lemma stem_of_suffix:
  "a \<noteq> [] \<Longrightarrow> e \<noteq> [] \<Longrightarrow> CHR ''.'' \<notin> set e \<Longrightarrow> stem_of (a @ CHR ''.'' # e) = a"
  by (simp add: stem_of_def rfind_append_last)

lemma name_child [simp]: "name (child d n) = n"
  by (simp add: name_def child_def)

lemma parent_child [simp]: "parent (child d n) = d"
  by (simp add: parent_def child_def)

lemma stem_child_cropped: "stem (child d (s @ ''_cropped.png'')) = s @ ''_cropped''"
proof -
  have "stem_of ((s @ ''_cropped'') @ CHR ''.'' # ''png'') = s @ ''_cropped''"
    by (rule stem_of_suffix) simp_all
  then show ?thesis by (simp add: stem_def)
qed

lemma right_half_width: "nat (int n - int (n div 2)) = n - n div 2"
  by linarith


lemma Split_result:
  assumes "map_of (nodes w) f = Some (Png img)"
    and "map_of (nodes w) (child (parent f) (stem f @ ''_A4_01.png'')) \<noteq> Some Dir"
    and "map_of (nodes w) (child (parent f) (stem f @ ''_A4_02.png'')) \<noteq> Some Dir"
  shows "SplitCroppedIntoA4Files f w =
    (Inr (child (parent f) (stem f @ ''_A4_01.png''), child (parent f) (stem f @ ''_A4_02.png'')),
     w\<lparr>nodes :=
         update_entry (child (parent f) (stem f @ ''_A4_02.png''))
           (Png \<lparr>width = width img - width img div 2, height = height img,
                 pixels = Region (int (width img div 2), 0, int (width img), int (height img))
                            (pixels img)\<rparr>)
           (update_entry (child (parent f) (stem f @ ''_A4_01.png''))
              (Png \<lparr>width = width img div 2, height = height img,
                    pixels = Region (0, 0, int (width img div 2), int (height img)) (pixels img)\<rparr>)
              (nodes w))\<rparr>)"
  using assms
  by (simp add: SplitCroppedIntoA4Files_def open_image_ok crop_def Let_def save_png_ok
      map_of_update_entry right_half_width)

lemma Crop_result:
  assumes "map_of (nodes w) f = Some (Png img)"
    and "dpiRatio E = Inr ratio"
    and "ratio \<noteq> 0"
    and "l div ratio + r div ratio \<le> int (width img)"
    and "t div ratio + b div ratio \<le> int (height img)"
    and "map_of (nodes w) (child (parent f) (stem f @ ''_cropped.png'')) \<noteq> Some Dir"
    and "map_of (nodes w) (child (parent f) (stem f @ ''_cropped_A4_01.png'')) \<noteq> Some Dir"
    and "map_of (nodes w) (child (parent f) (stem f @ ''_cropped_A4_02.png'')) \<noteq> Some Dir"
  shows "\<exists>w'. CropImageFile E f (l, t, r, b) w = (Inr (child (parent f) (stem f @ ''_cropped.png'')), w')
    \<and> stdout w' = stdout w
    \<and> map_of (nodes w') (child (parent f) (stem f @ ''_cropped.png'')) =
        Some (Png \<lparr>width = nat (int (width img) - r div ratio - l div ratio),
                   height = nat (int (height img) - b div ratio - t div ratio),
                   pixels = Region (l div ratio, t div ratio, int (width img) - r div ratio,
                                    int (height img) - b div ratio) (pixels img)\<rparr>)"
proof -
  let ?c = "child (parent f) (stem f @ ''_cropped.png'')"
  let ?box = "(l div ratio, t div ratio, int (width img) - r div ratio, int (height img) - b div ratio)"
  let ?ci = "\<lparr>width = nat (int (width img) - r div ratio - l div ratio),
              height = nat (int (height img) - b div ratio - t div ratio),
              pixels = Region ?box (pixels img)\<rparr>"
  let ?w1 = "w\<lparr>nodes := update_entry ?c (Png ?ci) (nodes w)\<rparr>"
  have box: "crop_box ratio img (l, t, r, b) = Inr ?box"
    using assms(3) by (simp add: crop_box_def then_do_def floordiv_def)
  have cr: "crop img ?box = Inr ?ci"
    using assms(4,5) by (simp add: crop_def)
  have sv: "save_png ?c ?ci w = (Inr (), ?w1)"
    using assms(6) by (simp add: save_png_ok)
  have st: "stem ?c = stem f @ ''_cropped''"
    by (rule stem_child_cropped)
  have sp: "\<exists>w'. SplitCroppedIntoA4Files ?c ?w1 =
        (Inr (child (parent ?c) (stem ?c @ ''_A4_01.png''),
              child (parent ?c) (stem ?c @ ''_A4_02.png'')), w')
      \<and> stdout w' = stdout w \<and> map_of (nodes w') ?c = Some (Png ?ci)"
    using assms(7,8)
    by (subst Split_result[where img = ?ci]) (simp_all add: map_of_update_entry st)
  then obtain w' where w':
    "SplitCroppedIntoA4Files ?c ?w1 =
       (Inr (child (parent ?c) (stem ?c @ ''_A4_01.png''),
             child (parent ?c) (stem ?c @ ''_A4_02.png'')), w')"
    "stdout w' = stdout w"
    "map_of (nodes w') ?c = Some (Png ?ci)"
    by blast
  have "CropImageFile E f (l, t, r, b) w = (Inr ?c, w')"
    using assms(1,2) box cr sv w'(1)
    by (simp add: CropImageFile_def Let_def open_image_ok)
  then show ?thesis using w'(2,3) by blast
qed

lemma startswith_append: "startswith (p @ t) p"
  by (induction p) simp_all

lemma isin_first: "isin sub (sub @ t)"
proof (cases "sub @ t")
  case Nil
  then show ?thesis by simp
next
  case (Cons a list)
  have "startswith (sub @ t) sub" by (rule startswith_append)
  then show ?thesis by (simp add: Cons)
qed

lemma isin_append: "isin sub (s @ sub @ t)"
  by (induction s) (simp_all add: isin_first)

lemma stem_child_A4_pdf: "stem (child d (s @ ''_A4.pdf'')) = s @ ''_A4''"
proof -
  have "stem_of ((s @ ''_A4'') @ CHR ''.'' # ''pdf'') = s @ ''_A4''"
    by (rule stem_of_suffix) simp_all
  then show ?thesis by (simp add: stem_def)
qed

lemma output_stem_marked: "isin ''_A4'' (stem (pdf_output_path imageDir))"
  using isin_append[of "''_A4''" "stem imageDir" "[]"]
  by (simp add: pdf_output_path_def stem_child_A4_pdf)

lemma Merge_returns_output_path:
  "fst (MergeImagesAsPDFFile E imageDir addPager pagerMemo v w) = Inr (pdf_output_path imageDir)
   \<or> (\<exists>e. fst (MergeImagesAsPDFFile E imageDir addPager pagerMemo v w) = Inl e)"
  by (auto simp: MergeImagesAsPDFFile_def Let_def and_then_def split: prod.splits sum.splits)

lemma process_files_skips_marked:
  "process_files E J count ignore pdfFiles w =
   process_files E J count ignore (filter (\<lambda>p. \<not> isin ''_A4'' (stem p)) pdfFiles) w"
proof (induction pdfFiles arbitrary: count ignore w)
  case Nil
  show ?case by simp
next
  case (Cons p ps)
  have rest: "\<And>c i. process_files E J c i ps =
      process_files E J c i (filter (\<lambda>p. \<not> isin ''_A4'' (stem p)) ps)"
    by (rule ext) (rule Cons.IH)
  show ?case
    by (cases "isin ''_A4'' (stem p)") (simp_all add: rest Let_def)
qed

lemma AddPage_result:
  assumes "map_of (nodes w) p = Some (Png img)"
    and "Pdf2Image_Default_Dpi E \<noteq> 0"
    and "windir E \<noteq> None"
    and "truetype E (if msyh_exists E then ''msyh.ttc'' else ''arial.ttf'') (height img)"
  shows "AddPageNumberIntoImage E p totalPages j memo w =
    (Inr p, w\<lparr>nodes := update_entry p
       (Png \<lparr>width = width img, height = height img,
             pixels = Captioned (if msyh_exists E then Localized j totalPages memo else Plain j totalPages)
                        (pixels img)\<rparr>) (nodes w)\<rparr>)"
  using assms
  by (auto simp: AddPageNumberIntoImage_def open_image_ok save_png_ok choose_caption_def)

lemma merge_loop_pages:
  assumes "distinct files"
    and "map (\<lambda>p. map_of (nodes w) p) files = map (\<lambda>img. Some (Png img)) imgs"
    and "addPager \<longrightarrow> Pdf2Image_Default_Dpi E \<noteq> 0 \<and> windir E \<noteq> None \<and>
           (\<forall>img \<in> set imgs.
              truetype E (if msyh_exists E then ''msyh.ttc'' else ''arial.ttf'') (height img))"
  shows "\<exists>w'. merge_loop E addPager memo v totalPages k pdf files w =
      (Inr (pdf @ map2 (\<lambda>j img. if addPager
                 then \<lparr>width = width img, height = height img,
                       pixels = Captioned (if msyh_exists E then Localized j totalPages memo
                                           else Plain j totalPages) (pixels img)\<rparr>
                 else img) [Suc k ..< Suc k + length imgs] imgs), w')
    \<and> (\<forall>q. q \<notin> set files \<longrightarrow> map_of (nodes w') q = map_of (nodes w) q)"
  using assms
proof (induction files arbitrary: imgs k pdf w)
  case Nil
  then show ?case by simp
next
  case (Cons p ps)
  then obtain i "is" where imgs: "imgs = i # is"
    and p: "map_of (nodes w) p = Some (Png i)"
    and ps: "map (\<lambda>p. map_of (nodes w) p) ps = map (\<lambda>img. Some (Png img)) is"
    by (cases imgs) auto
  let ?stamp = "\<lambda>j img. if addPager
                 then \<lparr>width = width img, height = height img,
                       pixels = Captioned (if msyh_exists E then Localized j totalPages memo
                                           else Plain j totalPages) (pixels img)\<rparr>
                 else img"
  define si where "si = ?stamp (Suc k) i"
  define w3 where "w3 =
    WriteText E (PageLine (Suc k) totalPages (name p) (width si) (height si)) v
      (if addPager then w\<lparr>nodes := update_entry p (Png si) (nodes w)\<rparr> else w)"
  have step: "merge_loop E addPager memo v totalPages k pdf (p # ps) w =
      merge_loop E addPager memo v totalPages (Suc k) (pdf @ [si]) ps w3"
    using p Cons.prems(3) unfolding si_def w3_def imgs
    by (cases addPager) (simp_all add: AddPage_result open_image_ok map_of_update_entry)
  have nodes3: "map_of (nodes w3) q = map_of (nodes w) q" if "q \<noteq> p" for q
    using that by (simp add: w3_def WriteText_def map_of_update_entry)
  have notin: "p \<notin> set ps" and dps: "distinct ps"
    using Cons.prems(1) by simp_all
  have "map (\<lambda>q. map_of (nodes w3) q) ps = map (\<lambda>q. map_of (nodes w) q) ps"
  proof (rule map_cong[OF refl])
    fix q assume "q \<in> set ps"
    then have "q \<noteq> p" using notin by auto
    then show "map_of (nodes w3) q = map_of (nodes w) q" by (rule nodes3)
  qed
  then have ps3: "map (\<lambda>q. map_of (nodes w3) q) ps = map (\<lambda>img. Some (Png img)) is"
    using ps by simp
  have pager: "addPager \<longrightarrow> Pdf2Image_Default_Dpi E \<noteq> 0 \<and> windir E \<noteq> None \<and>
      (\<forall>img \<in> set is.
         truetype E (if msyh_exists E then ''msyh.ttc'' else ''arial.ttf'') (height img))"
    using Cons.prems(3) by (simp add: imgs)
  from Cons.IH[OF dps ps3 pager, of "Suc k" "pdf @ [si]"]
  obtain w' where w': "merge_loop E addPager memo v totalPages (Suc k) (pdf @ [si]) ps w3 =
      (Inr ((pdf @ [si]) @ map2 ?stamp [Suc (Suc k) ..< Suc (Suc k) + length is] is), w')"
    and keep: "\<forall>q. q \<notin> set ps \<longrightarrow> map_of (nodes w') q = map_of (nodes w3) q"
    by blast
  have "[Suc k ..< Suc k + length imgs] = Suc k # [Suc (Suc k) ..< Suc k + length imgs]"
    by (rule upt_conv_Cons) (simp add: imgs)
  moreover have "Suc k + length imgs = Suc (Suc k) + length is"
    by (simp add: imgs)
  ultimately have "[Suc k ..< Suc k + length imgs] =
      Suc k # [Suc (Suc k) ..< Suc (Suc k) + length is]"
    by (simp only:)
  then have pages: "pdf @ map2 ?stamp [Suc k ..< Suc k + length imgs] imgs =
      (pdf @ [si]) @ map2 ?stamp [Suc (Suc k) ..< Suc (Suc k) + length is] is"
    by (simp add: imgs si_def)
  have run: "merge_loop E addPager memo v totalPages k pdf (p # ps) w =
      (Inr (pdf @ map2 ?stamp [Suc k ..< Suc k + length imgs] imgs), w')"
    by (simp only: step w' pages)
  have "\<forall>q. q \<notin> set (p # ps) \<longrightarrow> map_of (nodes w') q = map_of (nodes w) q"
    using keep nodes3 by simp
  with run show ?case by blast
qed

lemma fnmatch_empty_pattern: "fnmatch n [] = (n = [])"
  by (cases n) simp_all

lemma fnmatch_last:
  "fnmatch n pat \<Longrightarrow> pat \<noteq> [] \<Longrightarrow> last pat \<noteq> CHR ''*'' \<Longrightarrow> last pat \<noteq> CHR ''?'' \<Longrightarrow>
   n \<noteq> [] \<and> last n = last pat"
  by (induction n pat rule: fnmatch.induct) (auto simp: fnmatch_empty_pattern split: if_splits)

lemma output_not_listed:
  "pdf_output_path imageDir \<notin> set (glob w d ''*_cropped_A4_*.png'')"
proof
  assume "pdf_output_path imageDir \<in> set (glob w d ''*_cropped_A4_*.png'')"
  then have "fnmatch (stem imageDir @ ''_A4.pdf'') ''*_cropped_A4_*.png''"
    by (simp add: glob_def pdf_output_path_def)
  from fnmatch_last[OF this] show False by simp
qed

lemma mkdir_exist_ok_cases:
  assumes "fst (mkdir_exist_ok p w) = Inr ()"
  shows "mkdir_exist_ok p w = (Inr (), w) \<or>
     (map_of (nodes w) p = None \<and> mkdir_exist_ok p w = (Inr (), w\<lparr>nodes := nodes w @ [(p, Dir)]\<rparr>))"
  using assms
  by (auto simp: mkdir_exist_ok_def lookup_def split: option.splits node.splits if_splits)

lemma Merge_result:
  assumes dist: "distinct (map fst (nodes w))"
    and listed: "map (\<lambda>p. map_of (nodes w) p) (glob w imageDir ''*_cropped_A4_*.png'') =
                 map (\<lambda>img. Some (Png img)) imgs"
    and folder: "fst (mkdir_exist_ok (child (parent imageDir) ''_A4_'') w) = Inr ()"
    and target: "map_of (nodes w) (pdf_output_path imageDir) \<noteq> Some Dir"
    and pager: "addPager \<longrightarrow> Pdf2Image_Default_Dpi E \<noteq> 0 \<and> windir E \<noteq> None \<and>
           (\<forall>img \<in> set imgs.
              truetype E (if msyh_exists E then ''msyh.ttc'' else ''arial.ttf'') (height img))"
  shows "\<exists>w'. MergeImagesAsPDFFile E imageDir addPager memo v w = (Inr (pdf_output_path imageDir), w')
    \<and> map_of (nodes w') (pdf_output_path imageDir) =
        Some (Pdf (map2 (\<lambda>j img. if addPager
                 then \<lparr>width = width img, height = height img,
                       pixels = Captioned (if msyh_exists E then Localized j (length imgs) memo
                                           else Plain j (length imgs)) (pixels img)\<rparr>
                 else img) [1 ..< Suc (length imgs)] imgs))"
proof -
  let ?A4 = "child (parent imageDir) ''_A4_''"
  let ?out = "pdf_output_path imageDir"
  let ?files = "glob w imageDir ''*_cropped_A4_*.png''"
  let ?stamp = "\<lambda>j img. if addPager
                 then \<lparr>width = width img, height = height img,
                       pixels = Captioned (if msyh_exists E then Localized j (length imgs) memo
                                           else Plain j (length imgs)) (pixels img)\<rparr>
                 else img"
  obtain w1 where mk: "mkdir_exist_ok ?A4 w = (Inr (), w1)"
    and w1: "w1 = w \<or> (map_of (nodes w) ?A4 = None \<and> nodes w1 = nodes w @ [(?A4, Dir)])"
    using mkdir_exist_ok_cases[OF folder] by auto
  have files1: "glob w1 imageDir ''*_cropped_A4_*.png'' = ?files"
    using w1 by (auto simp: glob_def)
  have len: "length ?files = length imgs"
    using listed by (metis length_map)
  have same: "map_of (nodes w1) q = map_of (nodes w) q" if "map_of (nodes w) q \<noteq> None" for q
    using w1 that by (auto simp: map_add_def split: option.splits)
  have "map (\<lambda>p. map_of (nodes w1) p) ?files = map (\<lambda>p. map_of (nodes w) p) ?files"
  proof (rule map_cong[OF refl])
    fix q assume "q \<in> set ?files"
    then obtain k where "k < length ?files" "q = ?files ! k"
      by (auto simp: in_set_conv_nth)
    then have "map_of (nodes w) q = map (\<lambda>p. map_of (nodes w) p) ?files ! k" by simp
    also have "\<dots> = Some (Png (imgs ! k))"
      using \<open>k < length ?files\<close> len by (simp add: listed)
    finally show "map_of (nodes w1) q = map_of (nodes w) q" by (simp add: same)
  qed
  then have listed1: "map (\<lambda>p. map_of (nodes w1) p) ?files = map (\<lambda>img. Some (Png img)) imgs"
    using listed by simp
  have dfiles: "distinct ?files"
    using dist by (simp add: glob_def)
  from merge_loop_pages[OF dfiles listed1 pager, of memo v "length imgs" 0 "[]"]
  obtain w2 where loop: "merge_loop E addPager memo v (length imgs) 0 [] ?files w1 =
      (Inr (map2 ?stamp [Suc 0 ..< Suc 0 + length imgs] imgs), w2)"
    and keep: "\<forall>q. q \<notin> set ?files \<longrightarrow> map_of (nodes w2) q = map_of (nodes w1) q"
    by auto
  have "?out \<noteq> ?A4" by (simp add: pdf_output_path_def child_def)
  then have "map_of (nodes w1) ?out \<noteq> Some Dir"
    using w1 target by (auto simp: map_add_def split: option.splits)
  then have wr: "map_of (nodes w2) ?out \<noteq> Some Dir"
    using keep output_not_listed[of imageDir w imageDir] by simp
  have "MergeImagesAsPDFFile E imageDir addPager memo v w =
      (Inr ?out, w2\<lparr>nodes := update_entry ?out
         (Pdf (map2 ?stamp [Suc 0 ..< Suc 0 + length imgs] imgs)) (nodes w2)\<rparr>)"
    using wr
    by (simp add: MergeImagesAsPDFFile_def Let_def mk files1 len loop write_node_def lookup_def
        split: option.splits node.splits)
  then show ?thesis by (simp add: map_of_update_entry)
qed

lemmas path_eval = stem_def stem_of_def name_def parent_def child_def lookup_def

section \<open>Claims\<close>





text \<open>
  C10: the ratio is 300 floor-divided by the configured dpi. At the shipped 300 dpi it is 1
  and the margins are used as raw pixels; at any dpi above 300 it is 0, every margin
  conversion divides by zero, and CropImageFile raises ZeroDivisionError on every page
  image, writing nothing.
\<close>

theorem dpiRatio_shipped_and_high_dpi:
  "(Pdf2Image_Default_Dpi E = 300 \<longrightarrow>
      dpiRatio E = Inr 1 \<and>
      crop_box 1 img (leftMargin, topMargin, rightMargin, bottomMargin) =
        Inr (leftMargin, topMargin, int (width img) - rightMargin, int (height img) - bottomMargin))
   \<and> (300 < Pdf2Image_Default_Dpi E' \<longrightarrow>
      dpiRatio E' = Inr 0 \<and>
      crop_box 0 img (leftMargin, topMargin, rightMargin, bottomMargin) = Inl ZeroDivisionError \<and>
      (lookup w imageFilename = Some (Png img) \<longrightarrow>
         CropImageFile E' imageFilename (leftMargin, topMargin, rightMargin, bottomMargin) w =
           (Inl ZeroDivisionError, w)))"
  by (simp add: dpiRatio_def floordiv_def crop_box_def then_do_def CropImageFile_def Let_def
      open_image_ok lookup_def div_pos_pos_trivial)

theorem dpiRatio_shipped_and_high_dpi_witness:
  "Pdf2Image_Default_Dpi example_env = 300
   \<and> 300 < Pdf2Image_Default_Dpi (example_env\<lparr>Pdf2Image_Default_Dpi := 600\<rparr>)
   \<and> lookup page_world [''d'', ''a'', ''01.png''] = Some (Png (scan 1))
   \<and> dpiRatio example_env = Inr 1
   \<and> crop_box 1 (scan 1) (300, 165, 160, 160) = Inr (300, 165, 2840, 3840)
   \<and> dpiRatio (example_env\<lparr>Pdf2Image_Default_Dpi := 600\<rparr>) = Inr 0
   \<and> CropImageFile (example_env\<lparr>Pdf2Image_Default_Dpi := 600\<rparr>) [''d'', ''a'', ''01.png'']
         (300, 165, 160, 160) page_world = (Inl ZeroDivisionError, page_world)"
  using dpiRatio_shipped_and_high_dpi
    [of example_env "scan 1" 300 165 160 160 "example_env\<lparr>Pdf2Image_Default_Dpi := 600\<rparr>"
        page_world "[''d'', ''a'', ''01.png'']"]
  by (simp add: example_env_def page_world_def scan_def lookup_def)





text \<open>
  C8: when the target directory does not exist, ProcessPDFFiles prints the message about
  it and returns normally: no exception, no file processed, the file system untouched.
\<close>

theorem ProcessPDFFiles_missing_directory:
  assumes "\<not> exists w pdfDir"
  shows "ProcessPDFFiles E pdfDir margins regexInFilenameIncluded regexInFilenameExcluded
           reverse pager memo verb w =
         (Inr (), w\<lparr>stdout := stdout w @ [DirMissing pdfDir]\<rparr>)"
  using assms by (simp add: ProcessPDFFiles_def WriteText_def)

theorem ProcessPDFFiles_missing_directory_witness:
  "\<not> exists page_world [''nowhere'']
   \<and> ProcessPDFFiles example_env [''nowhere''] (300, 165, 160, 160) ''x'' ''y'' True True ''memo''
        False page_world =
      (Inr (), page_world\<lparr>stdout := [DirMissing [''nowhere'']]\<rparr>)"
  using ProcessPDFFiles_missing_directory
    [of page_world "[''nowhere'']" example_env "(300, 165, 160, 160)" "''x''" "''y''" True True
        "''memo''" False]
  by (simp add: exists_def lookup_def page_world_def)

text \<open>
  C5 (the code departs from the claim): with parity reversal disabled the loop calls
  CropImageFile with its default margins, so the supplied margins are never used: the
  result is the same as for all-zero margins, and a 3000 by 4000 page with margins
  (300, 165, 160, 160) is "cropped" to 3000 by 4000.
\<close>

theorem crop_page_without_reversal_uses_no_margins:
  "crop_page E m False v imageFilename w = crop_page E no_margins False v imageFilename w
   \<and> (\<exists>w'. crop_page example_env (300, 165, 160, 160) False False [''d'', ''a'', ''01.png'']
             page_world = (Inr (), w')
          \<and> lookup w' [''d'', ''a'', ''01_cropped.png''] =
              Some (Png \<lparr>width = 3000, height = 4000,
                         pixels = Region (0, 0, 3000, 4000) (Raster 1)\<rparr>))"
proof
  show "crop_page E m False v imageFilename w = crop_page E no_margins False v imageFilename w"
    by (cases m) (simp add: crop_page_def no_margins_def)
next
  have "\<exists>w'. CropImageFile example_env [''d'', ''a'', ''01.png''] (0, 0, 0, 0) page_world =
          (Inr [''d'', ''a'', ''01_cropped.png''], w')
      \<and> stdout w' = stdout page_world
      \<and> map_of (nodes w') [''d'', ''a'', ''01_cropped.png''] =
          Some (Png \<lparr>width = 3000, height = 4000,
                     pixels = Region (0, 0, 3000, 4000) (Raster 1)\<rparr>)"
    using Crop_result[of page_world "[''d'', ''a'', ''01.png'']" "scan 1" example_env 1 0 0 0 0]
    by (simp add: page_world_def example_env_def scan_def dpiRatio_def floordiv_def path_eval)
  then obtain w' where
    "CropImageFile example_env [''d'', ''a'', ''01.png''] (0, 0, 0, 0) page_world =
       (Inr [''d'', ''a'', ''01_cropped.png''], w')"
    "map_of (nodes w') [''d'', ''a'', ''01_cropped.png''] =
       Some (Png \<lparr>width = 3000, height = 4000, pixels = Region (0, 0, 3000, 4000) (Raster 1)\<rparr>)"
    by blast
  then show "\<exists>w'. crop_page example_env (300, 165, 160, 160) False False [''d'', ''a'', ''01.png'']
             page_world = (Inr (), w')
          \<and> lookup w' [''d'', ''a'', ''01_cropped.png''] =
              Some (Png \<lparr>width = 3000, height = 4000,
                         pixels = Region (0, 0, 3000, 4000) (Raster 1)\<rparr>)"
    by (simp add: crop_page_def no_margins_def path_eval WriteText_def example_env_def)
qed

text \<open>
  C6: the file that MergeImagesAsPDFFile writes is named \<open>stem_A4.pdf\<close>, so its stem
  contains \<open>_A4\<close>; the loop of ProcessPDFFiles skips every file whose stem contains
  \<open>_A4\<close> before it looks at the filters, so a run gives the same result with or without
  such files in the listing, and a generated PDF is never processed again.
\<close>

theorem generated_pdfs_are_skipped:
  "isin ''_A4'' (stem (pdf_output_path imageDir))
   \<and> (fst (MergeImagesAsPDFFile E imageDir addPager pagerMemo v w) = Inr (pdf_output_path imageDir)
        \<or> (\<exists>e. fst (MergeImagesAsPDFFile E imageDir addPager pagerMemo v w) = Inl e))
   \<and> process_files E J count ignore (pdf_output_path imageDir # rest) w0 =
       process_files E J count ignore rest w0
   \<and> process_files E J count ignore pdfFiles w0 =
       process_files E J count ignore (filter (\<lambda>p. \<not> isin ''_A4'' (stem p)) pdfFiles) w0"
  using output_stem_marked[of imageDir] Merge_returns_output_path[of E imageDir addPager pagerMemo v w]
    process_files_skips_marked[of E J count ignore pdfFiles w0]
  by simp

text \<open>
  C9 (as stated, false): nothing in the loop catches an exception. A damaged PDF listed
  before a good one ends the run with the rasterizer's exception: the good one is never
  opened and the closing line is not printed.
\<close>

theorem ProcessPDFFiles_failure_counterexample:
  "ProcessPDFFiles example_env [''d''] (0, 0, 0, 0) [] [] False False [] False bad_world =
     (Inl PDFPageCountError,
      bad_world\<lparr>nodes := nodes bad_world @ [([''d'', ''bad''], Dir)], stdout := [Started [''d'']]\<rparr>)"
  by (simp add: ProcessPDFFiles_def exists_def bad_world_def glob_def path_eval WriteText_def
      example_env_def compile_pattern_def process_pdf_def ExtractImagesFromPdfFile_def
      mkdir_exist_ok_def convert_from_path_def Let_def)

text \<open>
  C9 (amended): when the work on a file that passed the skip rule and the filters raises,
  the loop ends there with that exception and the file system as the failing call left
  it, whatever files come after it in the listing.
\<close>

theorem process_files_failure_aborts:
  assumes "\<not> isin ''_A4'' (stem pdfFilename)"
    and "\<forall>search. job_include J = Some search \<longrightarrow> search (name pdfFilename)"
    and "\<forall>search. job_exclude J = Some search \<longrightarrow> \<not> search (name pdfFilename)"
    and "process_pdf E J (count + 1) pdfFilename w = (Inl e, w')"
  shows "process_files E J count ignore (pdfFilename # rest) w = (Inl e, w')"
  using assms by (auto simp: Let_def split: option.splits)

theorem process_files_failure_aborts_witness:
  "process_pdf example_env
      \<lparr>job_margins = (0, 0, 0, 0), job_include = None, job_exclude = None, job_reverse = False,
       job_pager = False, job_memo = [], job_verbose = False\<rparr>
      1 [''d'', ''bad.pdf''] bad_world =
     (Inl PDFPageCountError, bad_world\<lparr>nodes := nodes bad_world @ [([''d'', ''bad''], Dir)]\<rparr>)
   \<and> process_files example_env
      \<lparr>job_margins = (0, 0, 0, 0), job_include = None, job_exclude = None, job_reverse = False,
       job_pager = False, job_memo = [], job_verbose = False\<rparr>
      0 0 [[''d'', ''bad.pdf''], [''d'', ''good.pdf'']] bad_world =
     (Inl PDFPageCountError, bad_world\<lparr>nodes := nodes bad_world @ [([''d'', ''bad''], Dir)]\<rparr>)"
  using process_files_failure_aborts
    [of "[''d'', ''bad.pdf'']"
        "\<lparr>job_margins = (0, 0, 0, 0), job_include = None, job_exclude = None, job_reverse = False,
          job_pager = False, job_memo = [], job_verbose = False\<rparr>"
        example_env 0 bad_world PDFPageCountError
        "bad_world\<lparr>nodes := nodes bad_world @ [([''d'', ''bad''], Dir)]\<rparr>"
        0 "[[''d'', ''good.pdf'']]"]
  by (simp add: bad_world_def path_eval process_pdf_def ExtractImagesFromPdfFile_def
      mkdir_exist_ok_def convert_from_path_def Let_def)

text \<open>
  C3 (as stated, false): MergeImagesAsPDFFile does not sort. For the four half pages of a
  two-page document listed as page 2 left, page 1 right, page 2 right, page 1 left, the
  PDF it writes has its pages in exactly that order, not in page/column order.
\<close>

theorem MergeImagesAsPDFFile_listing_order_counterexample:
  "\<exists>w'. MergeImagesAsPDFFile example_env [''d'', ''a''] False [] False shuffled_world =
          (Inr [''d'', ''_A4_'', ''a_A4.pdf''], w')
      \<and> lookup w' [''d'', ''_A4_'', ''a_A4.pdf''] =
          Some (Pdf [half 2 1, half 1 2, half 2 2, half 1 1])"
  using Merge_result
    [of shuffled_world "[''d'', ''a'']" "[half 2 1, half 1 2, half 2 2, half 1 1]" False
        example_env "[]" False]
  by (simp add: shuffled_world_def glob_def path_eval pdf_output_path_def mkdir_exist_ok_def
      upt_rec)

text \<open>
  C3 (amended): the pages of the PDF written by MergeImagesAsPDFFile are the files matching
  \<open>*_cropped_A4_*.png\<close> in the order in which the directory listing returns them, the
  page at position k captioned with k when captions are on. (So they are in page/column
  order exactly when the listing is.) Here every path names one entry, the matching files
  are the images \<open>imgs\<close>, the \<open>_A4_\<close> folder exists or can be made, the output path
  is not a directory and, when captions are on, the dpi constant is not 0, \<open>windir\<close> is
  set and the font loads for each image.
\<close>

theorem MergeImagesAsPDFFile_follows_listing:
  assumes "distinct (map fst (nodes w))"
    and "map (lookup w) (glob w imageDir ''*_cropped_A4_*.png'') = map (\<lambda>img. Some (Png img)) imgs"
    and "fst (mkdir_exist_ok (child (parent imageDir) ''_A4_'') w) = Inr ()"
    and "lookup w (pdf_output_path imageDir) \<noteq> Some Dir"
    and "addPager \<longrightarrow> Pdf2Image_Default_Dpi E \<noteq> 0 \<and> windir E \<noteq> None \<and>
           (\<forall>img \<in> set imgs.
              truetype E (if msyh_exists E then ''msyh.ttc'' else ''arial.ttf'') (height img))"
  shows "\<exists>w'. MergeImagesAsPDFFile E imageDir addPager pagerMemo v w =
          (Inr (pdf_output_path imageDir), w')
    \<and> lookup w' (pdf_output_path imageDir) =
        Some (Pdf (map2 (\<lambda>pageNumber img. if addPager
                 then \<lparr>width = width img, height = height img,
                       pixels = Captioned (if msyh_exists E
                                           then Localized pageNumber (length imgs) pagerMemo
                                           else Plain pageNumber (length imgs)) (pixels img)\<rparr>
                 else img) [1 ..< Suc (length imgs)] imgs))"
proof -
  have "(\<lambda>p. map_of (nodes w) p) = lookup w"
    by (simp add: lookup_def fun_eq_iff)
  with assms(2) have "map (\<lambda>p. map_of (nodes w) p) (glob w imageDir ''*_cropped_A4_*.png'') =
      map (\<lambda>img. Some (Png img)) imgs"
    by simp
  from Merge_result[OF assms(1) this assms(3) _ assms(5), of pagerMemo v] assms(4)
  show ?thesis by (simp add: lookup_def)
qed

theorem MergeImagesAsPDFFile_follows_listing_witness:
  "\<exists>w'. MergeImagesAsPDFFile example_env [''d'', ''a''] True ''memo'' False shuffled_world =
          (Inr [''d'', ''_A4_'', ''a_A4.pdf''], w')
      \<and> lookup w' [''d'', ''_A4_'', ''a_A4.pdf''] =
          Some (Pdf [\<lparr>width = 1340, height = 3680, pixels = Captioned (Plain 1 4) (Raster 21)\<rparr>,
                     \<lparr>width = 1340, height = 3680, pixels = Captioned (Plain 2 4) (Raster 12)\<rparr>,
                     \<lparr>width = 1340, height = 3680, pixels = Captioned (Plain 3 4) (Raster 22)\<rparr>,
                     \<lparr>width = 1340, height = 3680, pixels = Captioned (Plain 4 4) (Raster 11)\<rparr>])"
proof -
  have four: "Suc (Suc (Suc (Suc 0))) = 4"
    by simp
  show ?thesis
    using MergeImagesAsPDFFile_follows_listing
      [of shuffled_world "[''d'', ''a'']" "[half 2 1, half 1 2, half 2 2, half 1 1]" True
          example_env "''memo''" False]
    by (simp add: shuffled_world_def glob_def path_eval pdf_output_path_def mkdir_exist_ok_def
        upt_rec example_env_def half_def four numeral_3_eq_3[symmetric] numeral_2_eq_2[symmetric])
qed

end
